theory Spec2Isabelle
  imports Complex_Main
begin

section \<open>Values of the data frames\<close>

text \<open>
  The program keeps its tables in SQLite and computes on pandas data frames.  A cell of
  a REAL column is \<open>Some v\<close> when it holds a number and \<open>None\<close> when it is NULL (NaN in a
  float column).  Numbers are exact rationals.  A TEXT cell is a string of ASCII
  characters; a TEXT cell that may be NULL is an optional string.

  Two things lie outside this model of the values, and no theorem below rests on them:
  float64 arithmetic (rounding of products, sums beyond \<open>2 ^ 53\<close>, overflow to infinity),
  and the dtype that pandas gives a REAL column whose cells are all NULL (an object
  column, on which the \<open>round\<close> of newer pandas versions raises).  The theorems about
  the pricing block use only its guard on the empty frame and the failure of line 511
  under an override rate, which come before any of this.
\<close>

type_synonym series = "rat option list"

datatype error = AttributeError

text \<open>
  \<open>str.lower()\<close> on ASCII text: only the letters A to Z change.  Python folds every
  cased letter of Unicode; text beyond ASCII is not modelled.
\<close>

definition lower_char :: "char \<Rightarrow> char" where
  "lower_char c =
     (let n = (of_char c :: nat) in if 65 \<le> n \<and> n \<le> 90 then char_of (n + 32) else c)"

definition lower :: "string \<Rightarrow> string" where
  "lower s = map lower_char s"

text \<open>
  \<open>astype(str)\<close> leaves a string cell as it is (a NULL cell reads as the text
  \<open>None\<close>, which is a string like any other).
\<close>

definition astype_str :: "string \<Rightarrow> string" where
  "astype_str s = s"

text \<open>
  \<open>Series.round(d)\<close> is numpy's rounding: scale by \<open>10 ^ d\<close>, round to the nearest
  integer with ties going to the even neighbour, scale back.
\<close>

definition rint :: "rat \<Rightarrow> int" where
  "rint x =
     (let f = \<lfloor>x\<rfloor>; r = x - of_int f
      in if r < 1 / 2 then f else if 1 / 2 < r then f + 1 else if even f then f else f + 1)"

definition round_dec :: "nat \<Rightarrow> rat \<Rightarrow> rat" where
  "round_dec d x = of_int (rint (x * 10 ^ d)) / 10 ^ d"

text \<open>\<open>fillna(0)\<close> on one cell.\<close>

definition fillna0 :: "rat option \<Rightarrow> rat" where
  "fillna0 c = (case c of None \<Rightarrow> 0 | Some v \<Rightarrow> v)"

text \<open>\<open>int(x)\<close> on a float: truncation towards zero.\<close>

definition py_int :: "rat \<Rightarrow> int" where
  "py_int x = (if 0 \<le> x then \<lfloor>x\<rfloor> else \<lceil>x\<rceil>)"

text \<open>Column arithmetic: a NaN cell stays NaN.\<close>

definition series_mul :: "series \<Rightarrow> rat \<Rightarrow> series" where
  "series_mul xs k = map (map_option (\<lambda>v. v * k)) xs"

definition series_round :: "nat \<Rightarrow> series \<Rightarrow> series" where
  "series_round d xs = map (map_option (round_dec d)) xs"

text \<open>
  The operand of line 511 is either a column or, once the override has replaced it, a
  plain Python float.  Multiplying by a float keeps the kind.
\<close>

datatype operand = Series series | Scalar rat

fun mul_float :: "operand \<Rightarrow> rat \<Rightarrow> operand" where
  "mul_float (Series xs) k = Series (series_mul xs k)"
| "mul_float (Scalar x) k = Scalar (x * k)"

text \<open>
  The method call \<open>.round(d)\<close>: a Series has the method, a Python float has none
  (only the builtin \<open>round\<close> applies to it), so the call raises AttributeError.
\<close>

fun round_method :: "nat \<Rightarrow> operand \<Rightarrow> error + series" where
  "round_method d (Series xs) = Inr (series_round d xs)"
| "round_method d (Scalar x) = Inl AttributeError"

text \<open>
  \<open>df.loc[mask, col] = rhs\<close>: the rows where the mask holds take the cell of the
  right-hand side with the same index, the others keep theirs.
\<close>

definition loc_assign :: "bool list \<Rightarrow> series \<Rightarrow> series \<Rightarrow> series" where
  "loc_assign msk col rhs =
     map (\<lambda>(m, old, new). if m then new else old) (zip msk (zip col rhs))"


section \<open>Tables\<close>

text \<open>
  \<open>PART_COLS\<close>, the columns of a part that ingestion fills, in the order of the source.
  \<open>partNo\<close> is \<open>TEXT NOT NULL\<close>; \<open>description\<close> may be NULL.
\<close>

record part_cols =
  partNo :: string
  description :: "string option"
  manufacturer :: string
  category :: string
  unit :: string
  unitPrice :: "rat option"
  notes_col :: string
  category1 :: string
  category2 :: string
  pricingModel :: string
  unitPricePerKWh :: "rat option"
  unitPricePerYear :: "rat option"
  refCapacityKWh :: "rat option"

text \<open>A row of table \<open>parts\<close>: the columns above and the key \<open>parts.id\<close>.\<close>

record part = part_cols +
  p_id :: int

text \<open>A row of table \<open>bom_items\<close> (\<open>bi\<close> in the queries).\<close>

record bom_item =
  bi_id :: int
  bi_bomId :: int
  bi_partId :: int
  bi_qty :: rat
  bi_altText :: "string option"

text \<open>
  The store: the two tables the claims speak about and the AUTOINCREMENT counter of
  \<open>parts\<close> (the largest id handed out so far).
\<close>

record database =
  parts :: "part list"
  parts_seq :: int
  bom_items :: "bom_item list"

text \<open>
  A connection.  SQLite enforces foreign keys, and with them \<open>ON DELETE CASCADE\<close>, only
  on a connection that has run \<open>PRAGMA foreign_keys = ON\<close>; the setting starts off.
  \<open>get_conn\<close> opens the file and runs no pragma.
\<close>

record connection =
  foreign_keys :: bool

definition get_conn :: connection where
  "get_conn = \<lparr>foreign_keys = False\<rparr>"

text \<open>
  \<open>DELETE FROM parts WHERE id = ?\<close> on a connection: the row goes; the rows of
  \<open>bom_items\<close> that reference it go with it when the connection enforces foreign keys.
\<close>

definition sql_delete_part :: "connection \<Rightarrow> int \<Rightarrow> database \<Rightarrow> database" where
  "sql_delete_part con part_id db =
     db\<lparr>parts := filter (\<lambda>p. p_id p \<noteq> part_id) (parts db),
        bom_items :=
          (if foreign_keys con \<and> part_id \<in> set (map p_id (parts db))
           then filter (\<lambda>bi. bi_partId bi \<noteq> part_id) (bom_items db)
           else bom_items db)\<rparr>"

definition delete_part :: "int \<Rightarrow> database \<Rightarrow> database" where
  "delete_part part_id db = sql_delete_part get_conn part_id db"

text \<open>
  A row of the frame that \<open>list_bom_items\<close> returns: the part's columns joined to the
  line item's.  \<open>qty\<close> is a float cell, so it may be NaN.
\<close>

record item_row = part_cols +
  itemId :: int
  bomId :: int
  partId :: int
  qty :: "rat option"
  altText :: "string option"

definition join_row :: "bom_item \<Rightarrow> part \<Rightarrow> item_row" where
  "join_row bi p =
     part_cols.extend (part_cols.truncate p)
       (item_row.fields (bi_id bi) (bi_bomId bi) (bi_partId bi) (Some (bi_qty bi)) (bi_altText bi))"

definition list_bom_items :: "database \<Rightarrow> int \<Rightarrow> item_row list" where
  "list_bom_items db bom_id =
     concat (map (\<lambda>bi. map (join_row bi) (filter (\<lambda>p. p_id p = bi_partId bi) (parts db)))
       (sort_key bi_id (filter (\<lambda>bi. bi_bomId bi = bom_id) (bom_items db))))"


section \<open>Ingestion\<close>

text \<open>The session state of the page: the flag \<open>allow_update\<close>.\<close>

record session =
  allow_update :: bool

text \<open>
  The frame handed to \<open>insert_parts\<close>: its rows, and how pandas holds the two key
  columns.  A column read from a file is a text (object) column when some cell holds
  text, and then a blank cell is a missing value in it; it is a number column when no
  cell holds text (all blank, or all numbers).  In a number column the row keeps the text
  that SQLite stores for the cell.  Columns built by the page itself (the form, the
  free-text parser, \<open>astype(str)\<close>) are text columns.
\<close>

datatype dtype = TextColumn | NumberColumn

record frame =
  partNo_dtype :: dtype
  description_dtype :: dtype
  frame_rows :: "part_cols list"

text \<open>
  The row that \<open>parse_free_text\<close> builds from a line with the two columns
  \<open>part_no\<close> and \<open>desc\<close>.
\<close>

definition free_text_row :: "string \<Rightarrow> string \<Rightarrow> part_cols" where
  "free_text_row part_no desc =
     \<lparr>partNo = part_no, description = Some desc, manufacturer = [], category = [],
      unit = ''set'', unitPrice = None, notes_col = [], category1 = [], category2 = [],
      pricingModel = ''fixed'', unitPricePerKWh = None, unitPricePerYear = None,
      refCapacityKWh = None\<rparr>"

text \<open>
  The string methods on one cell of a text column: \<open>.str.lower()\<close> leaves a missing
  cell missing, and \<open>+\<close> gives a missing cell when either side is missing.
\<close>

definition str_lower :: "string option \<Rightarrow> string option" where
  "str_lower c = map_option lower c"

definition str_add :: "string option \<Rightarrow> string option \<Rightarrow> string option" where
  "str_add a b =
     (case a of None \<Rightarrow> None
      | Some x \<Rightarrow> (case b of None \<Rightarrow> None | Some y \<Rightarrow> Some (x @ y)))"

text \<open>
  The dedup key of \<open>insert_parts\<close>: both texts in lower case around a bar; missing when
  the description is.
\<close>

definition dedup_key :: "string \<Rightarrow> string option \<Rightarrow> string option" where
  "dedup_key pn d = str_add (str_add (str_lower (Some pn)) (Some ''|'')) (str_lower d)"

text \<open>\<open>Series.isin\<close> on one cell: a missing key is found among keys one of which is missing.\<close>

definition isin :: "string option \<Rightarrow> string option list \<Rightarrow> bool" where
  "isin k ks = (k \<in> set ks)"

text \<open>\<open>to_sql(..., if_exists="append")\<close>: each row gets the next id.\<close>

definition to_sql_append :: "database \<Rightarrow> part_cols list \<Rightarrow> database" where
  "to_sql_append db df =
     db\<lparr>parts := parts db @
          map (\<lambda>(i, r). part_cols.extend r (part.fields (parts_seq db + 1 + int i)))
            (enumerate 0 df),
        parts_seq := parts_seq db + int (length df)\<rparr>"

text \<open>
  \<open>insert_parts\<close>.  The frame has every column of \<open>PART_COLS\<close> by its type, and its
  numeric cells are numbers or missing, so the first block and the three
  \<open>to_numeric\<close> calls change nothing.  \<open>checkbox\<close> is what \<open>st.checkbox\<close> returns in
  the run that makes the call.  When the table is not empty the keys are computed with
  the \<open>.str\<close> accessor, which raises AttributeError on a number column; the session flag
  is set by then and stays set, the store is unchanged.  The result is the session and
  either the error or the store with the returned count.
\<close>

definition insert_parts ::
  "bool \<Rightarrow> session \<Rightarrow> database \<Rightarrow> frame \<Rightarrow> session \<times> (error + database \<times> nat)" where
  "insert_parts checkbox ss db df =
     (if \<not> allow_update ss \<and> \<not> checkbox then (ss, Inr (db, 0))
      else
        let ss' = ss\<lparr>allow_update := True\<rparr>;
            exist = map (\<lambda>p. (partNo p, description p)) (parts db)
        in if exist \<noteq> []
              \<and> (partNo_dtype df = NumberColumn \<or> description_dtype df = NumberColumn)
           then (ss', Inl AttributeError)
           else
             let key_exist = map (\<lambda>(pn, d). dedup_key pn d) exist;
                 df' = (if exist \<noteq> []
                        then filter (\<lambda>r. \<not> isin (dedup_key (partNo r) (description r)) key_exist)
                               (frame_rows df)
                        else frame_rows df)
             in if df' = [] then (ss', Inr (db, 0))
                else (ss', Inr (to_sql_append db df', length df')))"


section \<open>The pricing block of the BOM tab\<close>

text \<open>A row of the priced frame: the joined row and the two computed columns.\<close>

record priced_row = item_row +
  displayUnitPrice :: "rat option"
  amount :: rat

text \<open>
  What the block shows: the priced frame with its total, or the notice that the BOM has
  no line.
\<close>

datatype bom_view = Priced "priced_row list" int | NoItems

definition priced :: "item_row \<Rightarrow> rat option \<Rightarrow> rat \<Rightarrow> priced_row" where
  "priced r d a = item_row.extend r (priced_row.fields d a)"

text \<open>
  Lines 503 to 517.  The frame comes from \<open>list_bom_items\<close>, so the two rate columns are
  always there and both \<open>if ... in df.columns\<close> tests hold.  The three number inputs
  \<open>proj_kwh\<close>, \<open>proj_years\<close> and \<open>override_rate\<close> are Python floats.  The right-hand
  side of line 511 is evaluated before the assignment looks at the mask, so it is
  evaluated on every non-empty frame.  Line 514 computes its right-hand side on the
  masked rows only; the assignment reads no other cell, so the whole column is computed
  here.  \<open>round(0)\<close> and the sum act on columns that \<open>fillna(0)\<close> has freed of NaN.
  After line 511 the function follows the block on float columns in exact arithmetic,
  within the limits named at the start.
\<close>

definition tab_bom_pricing :: "rat \<Rightarrow> rat \<Rightarrow> rat \<Rightarrow> item_row list \<Rightarrow> error + bom_view" where
  "tab_bom_pricing proj_kwh proj_years override_rate df_items =
     (if df_items = [] then Inr NoItems
      else
        let d0 = map unitPrice df_items;
            per_mask = map (\<lambda>r. lower (astype_str (pricingModel r)) = ''per_kwh'' \<and> 0 < proj_kwh)
                         df_items;
            base_rate = (if 0 < override_rate then Scalar override_rate
                         else Series (map unitPricePerKWh df_items))
        in case round_method 2 (mul_float base_rate proj_kwh) of
             Inl e \<Rightarrow> Inl e
           | Inr rhs1 \<Rightarrow>
               let d1 = loc_assign per_mask d0 rhs1;
                   py_mask = map (\<lambda>r. lower (astype_str (pricingModel r)) = ''per_year''
                                         \<and> 0 < proj_years) df_items;
                   rhs2 = series_round 2 (series_mul (map unitPricePerYear df_items) proj_years);
                   d2 = loc_assign py_mask d1 rhs2;
                   amounts = map (\<lambda>(d, q). round_dec 0 (fillna0 d * fillna0 q))
                               (zip d2 (map qty df_items));
                   total = py_int (sum_list amounts)
               in Inr (Priced
                    (map (\<lambda>(r, d, a). priced r d a)
                       (zip df_items (zip d2 amounts)))
                    total))"


section \<open>The specification's reading of the dedup, and sample data\<close>

text \<open>
  The reading of "the pair already occurs in the parts table" that the specification
  uses for ingestion: part number and description, compared without regard to case,
  are those of a stored part.
\<close>

definition pair_occurs :: "part list \<Rightarrow> part_cols \<Rightarrow> bool" where
  "pair_occurs ps r =
     ((lower (partNo r), map_option lower (description r))
        \<in> set (map (\<lambda>p. (lower (partNo p), map_option lower (description p))) ps))"

text \<open>Sample lines: the part of a free-text row joined to line item 1 of BOM 1.\<close>

definition line0 :: item_row where
  "line0 = part_cols.extend (free_text_row ''P-1'' ''sample part'')
             (item_row.fields 1 1 1 (Some 1) None)"

definition kwh_line :: item_row where
  "kwh_line = line0\<lparr>pricingModel := ''per_kwh'', unitPricePerKWh := Some (1 / 20), qty := Some 2\<rparr>"

definition year_line :: item_row where
  "year_line = line0\<lparr>pricingModel := ''per_year'', unitPricePerYear := Some 1200, qty := Some 1\<rparr>"

definition fixed_line :: "rat option \<Rightarrow> rat option \<Rightarrow> item_row" where
  "fixed_line p q = line0\<lparr>unitPrice := p, qty := q\<rparr>"

definition bogus_line :: item_row where
  "bogus_line = line0\<lparr>pricingModel := ''per_month'', unitPrice := Some 7, unitPricePerKWh := Some 9\<rparr>"

text \<open>Sample store: one part, referenced by one line item.\<close>

definition stored :: "int \<Rightarrow> part_cols \<Rightarrow> part" where
  "stored i r = part_cols.extend r (part.fields i)"

definition store1 :: database where
  "store1 =
     \<lparr>parts = [stored 1 (free_text_row ''P-1'' ''sample part'')], parts_seq = 1,
      bom_items = [\<lparr>bi_id = 1, bi_bomId = 1, bi_partId = 1, bi_qty = 1, bi_altText = None\<rparr>]\<rparr>"

text \<open>
  Sample catalogues and frames for ingestion: a part whose number contains a bar, an
  ordinary part, a part with no description; a frame of text columns, and a frame whose
  description column is blank throughout.
\<close>

definition no_description :: "string \<Rightarrow> part_cols" where
  "no_description part_no = (free_text_row part_no [])\<lparr>description := None\<rparr>"

definition catalog_bar :: database where
  "catalog_bar = \<lparr>parts = [stored 1 (free_text_row ''a|b'' ''c'')], parts_seq = 1, bom_items = []\<rparr>"

definition catalog_widget :: database where
  "catalog_widget =
     \<lparr>parts = [stored 1 (free_text_row ''A1'' ''Widget'')], parts_seq = 1, bom_items = []\<rparr>"

definition catalog_blank :: database where
  "catalog_blank = \<lparr>parts = [stored 1 (no_description ''A1'')], parts_seq = 1, bom_items = []\<rparr>"

definition text_frame :: "part_cols list \<Rightarrow> frame" where
  "text_frame rs = \<lparr>partNo_dtype = TextColumn, description_dtype = TextColumn, frame_rows = rs\<rparr>"

definition blank_description_frame :: "part_cols list \<Rightarrow> frame" where
  "blank_description_frame rs =
     \<lparr>partNo_dtype = TextColumn, description_dtype = NumberColumn, frame_rows = rs\<rparr>"


section \<open>Facts about the pricing block\<close>

text \<open>With an override rate the block raises on every non-empty frame.\<close>

lemma pricing_override:
  "items \<noteq> [] \<Longrightarrow> 0 < ov \<Longrightarrow> tab_bom_pricing kwh yrs ov items = Inl AttributeError"
  by (simp add: tab_bom_pricing_def)

lemma pricing_empty: "tab_bom_pricing kwh yrs ov [] = Inr NoItems"
  by (simp add: tab_bom_pricing_def)


section \<open>Facts about ingestion\<close>

lemma lower_char_bar: "(lower_char c = CHR ''|'') = (c = CHR ''|'')"
  by (auto simp: lower_char_def Let_def char_of_eq_iff take_bit_eq_mod)

lemma bar_lower_char: "(CHR ''|'' = lower_char c) = (CHR ''|'' = c)"
  using lower_char_bar [of c] by auto

lemma bar_in_lower: "(CHR ''|'' \<in> set (lower s)) = (CHR ''|'' \<in> set s)"
  by (induction s) (simp_all add: lower_def bar_lower_char)

lemma split_at_first: "c \<notin> set xs \<Longrightarrow> c \<notin> set ys \<Longrightarrow> xs @ c # a = ys @ c # b \<Longrightarrow> xs = ys \<and> a = b"
proof (induction xs arbitrary: ys)
  case Nil
  then show ?case by (cases ys) auto
next
  case (Cons x xs)
  then show ?case by (cases ys) auto
qed

lemma dedup_key_Some: "dedup_key pn (Some d) = Some (lower pn @ CHR ''|'' # lower d)"
  by (simp add: dedup_key_def str_add_def str_lower_def)

lemma dedup_key_None: "dedup_key pn None = None"
  by (simp add: dedup_key_def str_add_def str_lower_def)

text \<open>Keys of bar-free part numbers are equal exactly when the pairs are, up to case.\<close>

lemma dedup_key_eq_iff:
  assumes "CHR ''|'' \<notin> set pn1" and "CHR ''|'' \<notin> set pn2"
  shows "(dedup_key pn1 (Some d1) = dedup_key pn2 d2) =
         (lower pn1 = lower pn2 \<and> Some (lower d1) = map_option lower d2)"
proof (cases d2)
  case None
  then show ?thesis by (simp add: dedup_key_Some dedup_key_None)
next
  case (Some t)
  have b: "CHR ''|'' \<notin> set (lower pn1)" "CHR ''|'' \<notin> set (lower pn2)"
    using assms by (simp_all add: bar_in_lower)
  have "(lower pn1 @ CHR ''|'' # lower d1 = lower pn2 @ CHR ''|'' # lower t) =
        (lower pn1 = lower pn2 \<and> lower d1 = lower t)"
    using split_at_first [OF b] by auto
  with Some show ?thesis
    by (simp add: dedup_key_Some)
qed

lemma key_occurs_iff:
  assumes "\<forall>p\<in>set ps. CHR ''|'' \<notin> set (partNo p)" and "CHR ''|'' \<notin> set (partNo r)"
    and "description r = Some d"
  shows "isin (dedup_key (partNo r) (description r))
           (map (\<lambda>(pn, d). dedup_key pn d) (map (\<lambda>p. (partNo p, description p)) ps))
         = pair_occurs ps r"
  using assms by (induction ps) (auto simp: isin_def pair_occurs_def dedup_key_eq_iff)

lemma to_sql_append_Nil: "to_sql_append db [] = db"
  by (simp add: to_sql_append_def)

lemma truncate_stored: "part_cols.truncate (part_cols.extend r (part.fields i)) = r"
  by (simp add: part_cols.truncate_def part_cols.extend_def part.fields_def)

lemma to_sql_append_parts:
  "map part_cols.truncate (parts (to_sql_append db df)) = map part_cols.truncate (parts db) @ df"
proof -
  have "map (part_cols.truncate \<circ> (\<lambda>(i, r). part_cols.extend r (part.fields (k + int i)))) (enumerate n xs) = xs"
    for k n and xs :: "part_cols list"
    by (induction xs arbitrary: n) (simp_all add: truncate_stored)
  then show ?thesis
    by (simp add: to_sql_append_def)
qed

lemma delete_part_keeps_items: "bom_items (delete_part part_id db) = bom_items db"
  by (simp add: delete_part_def sql_delete_part_def get_conn_def)


section \<open>The claims\<close>

text \<open>
  Claim C1.  A per_kwh line priced with a project capacity takes the override rate when
  one is given.  The code raises instead: for the line of the specification (rate 0.05,
  quantity 2, capacity 1000, override 0.10) the block ends in AttributeError, where the
  claim promises a display price of 100.00 and an amount of 200.
\<close>

theorem override_rate_raises:
  "tab_bom_pricing 1000 0 (1 / 10) [kwh_line] = Inl AttributeError"
  by (simp add: tab_bom_pricing_def)

text \<open>
  Claim C2.  The pricing computation completes on every well-typed input.  The code does
  not: any positive override rate makes the block raise, here on a single fixed-price
  line.
\<close>

theorem pricing_raises_on_override:
  "tab_bom_pricing 0 0 (1 / 2) [fixed_line (Some 100) (Some 1)] = Inl AttributeError"
  by (simp add: tab_bom_pricing_def fixed_line_def)

text \<open>
  Claim C3.  Deleting a part removes every line item that references it.  The code
  deletes the part only: the connection never switches foreign keys on, so the cascade of
  the schema does not run, and the line item of the sample store still names part 1.
\<close>

theorem delete_part_leaves_line_items:
  "parts (delete_part 1 store1) = []
   \<and> map bi_partId (bom_items (delete_part 1 store1)) = [1]"
  by code_simp

text \<open>
  Claim C4.  A per_year line priced with a positive number of project years shows the
  yearly rate times the years, rounded to two decimals.  The code does not get that far
  once an override rate for the per_kwh lines is entered: line 511 raises before line 514
  prices the per_year lines.  The line of the specification (1200 a year, quantity 1,
  3 years), priced with the override 0.10, ends in AttributeError, where the claim
  promises a display price of 3600.00 and an amount of 3600.
\<close>

theorem per_year_line_not_priced:
  "tab_bom_pricing 0 3 (1 / 10) [year_line] = Inl AttributeError"
  by (simp add: tab_bom_pricing_def)

text \<open>
  Claim C5.  A per_kwh line priced with project capacity 0 shows its stored unit price.
  With capacity 0 no row is selected by the mask of line 507, yet the right-hand side of
  line 511 is still evaluated, and under an override rate it raises: the sample per_kwh
  line, capacity 0 and override 0.10, ends in AttributeError, where the claim promises
  the stored (absent) price and the amount 0.
\<close>

theorem zero_capacity_line_not_priced:
  "tab_bom_pricing 0 0 (1 / 10) [kwh_line] = Inl AttributeError"
  by (simp add: tab_bom_pricing_def)

text \<open>
  Claim C6.  The amount of every line is its display price times its quantity, rounded
  to whole units.  Under an override rate the block raises at line 511 and line 516
  computes no amount: a fixed line of price 100 and quantity 2, priced with the override
  0.10, ends in AttributeError, where the claim promises the amount 200.
\<close>

theorem amount_not_computed:
  "tab_bom_pricing 0 0 (1 / 10) [fixed_line (Some 100) (Some 2)] = Inl AttributeError"
  by (simp add: tab_bom_pricing_def fixed_line_def)

text \<open>
  Claim C7, first as stated: for the empty sequence the total is 0.  The block is
  guarded by \<open>if not df_items.empty\<close>: on a BOM with no line it computes no total and
  shows the notice instead.
\<close>

theorem empty_bom_shows_no_total:
  "tab_bom_pricing 0 0 0 [] = Inr NoItems \<and> tab_bom_pricing 0 0 0 [] \<noteq> Inr (Priced [] 0)"
  by (simp add: tab_bom_pricing_def)

text \<open>
  Claim C7, amended.  For the empty sequence, whatever the project parameters, the block
  computes no total, neither 0 nor any other, and shows the notice; and the notice is
  shown for the empty sequence only.
\<close>

theorem notice_iff_empty:
  "(tab_bom_pricing kwh yrs ov items = Inr NoItems) = (items = [])
   \<and> tab_bom_pricing kwh yrs ov [] \<noteq> Inr (Priced rows tot)"
proof
  show "(tab_bom_pricing kwh yrs ov items = Inr NoItems) = (items = [])"
  proof (cases "items = []")
    case True
    then show ?thesis by (simp add: pricing_empty)
  next
    case False
    then show ?thesis
      by (cases "0 < ov") (simp_all add: tab_bom_pricing_def Let_def)
  qed
  show "tab_bom_pricing kwh yrs ov [] \<noteq> Inr (Priced rows tot)"
    by (simp add: pricing_empty)
qed

text \<open>
  Claim C8.  A line whose pricing model is none of the three known ones is priced as a
  fixed line, showing its stored unit price, and does not make the computation fail.
  Under an override rate the computation fails on every frame, this line's included: the
  line with model per_month and stored price 7, priced with the override 0.10, ends in
  AttributeError, where the claim promises the display price 7.
\<close>

theorem unknown_model_line_not_priced:
  "tab_bom_pricing 1000 3 (1 / 10) [bogus_line] = Inl AttributeError"
  by (simp add: tab_bom_pricing_def)

text \<open>
  Claim C9, first as stated: a row is skipped only when its pair of part number and
  description, compared without regard to case, is already in the table, and every other
  row is inserted.  Four runs say otherwise.  The key is the two texts joined by a bar,
  so the stored pair (a|b, c) has the key of the different incoming pair (a, b|c), which
  is skipped.  While the session does not allow updates and the box is not ticked,
  nothing is inserted.  A row with no description has a missing key, and a missing key
  is found as soon as some stored part has no description: (B2, none) is skipped because
  (A1, none) is stored.  And on a description column that is blank throughout the key
  computation raises.
\<close>

theorem dedup_skips_unseen_pair:
  "\<not> pair_occurs (parts catalog_bar) (free_text_row ''a'' ''b|c'')
   \<and> insert_parts True \<lparr>allow_update = False\<rparr> catalog_bar (text_frame [free_text_row ''a'' ''b|c''])
       = (\<lparr>allow_update = True\<rparr>, Inr (catalog_bar, 0))
   \<and> \<not> pair_occurs (parts catalog_widget) (free_text_row ''B2'' ''Gadget'')
   \<and> insert_parts False \<lparr>allow_update = False\<rparr> catalog_widget
         (text_frame [free_text_row ''B2'' ''Gadget''])
       = (\<lparr>allow_update = False\<rparr>, Inr (catalog_widget, 0))
   \<and> \<not> pair_occurs (parts catalog_blank) (no_description ''B2'')
   \<and> insert_parts True \<lparr>allow_update = False\<rparr> catalog_blank (text_frame [no_description ''B2''])
       = (\<lparr>allow_update = True\<rparr>, Inr (catalog_blank, 0))
   \<and> \<not> pair_occurs (parts catalog_widget) (no_description ''B2'')
   \<and> insert_parts True \<lparr>allow_update = False\<rparr> catalog_widget
         (blank_description_frame [no_description ''B2''])
       = (\<lparr>allow_update = True\<rparr>, Inl AttributeError)"
  by code_simp

text \<open>
  Claim C9, amended.  While the session does not allow updates and the box is not
  ticked, \<open>insert_parts\<close> changes nothing and returns 0.  Otherwise, when both key
  columns of the incoming frame are text columns, no part number, stored or incoming,
  contains a bar, and every incoming row has a description, it sets the session flag,
  skips exactly the incoming rows whose pair, compared without regard to case, is the
  pair of a stored part, appends all the others in order and returns their number.  So
  a stored pair never suppresses a different one.
\<close>

theorem insert_parts_dedup:
  "(\<not> allow_update ss \<and> \<not> checkbox \<longrightarrow> insert_parts checkbox ss db df = (ss, Inr (db, 0)))
   \<and> ((allow_update ss \<or> checkbox)
        \<and> partNo_dtype df = TextColumn \<and> description_dtype df = TextColumn
        \<and> (\<forall>p\<in>set (parts db). CHR ''|'' \<notin> set (partNo p))
        \<and> (\<forall>r\<in>set (frame_rows df). CHR ''|'' \<notin> set (partNo r) \<and> description r \<noteq> None)
      \<longrightarrow> insert_parts checkbox ss db df =
            (ss\<lparr>allow_update := True\<rparr>,
             Inr (to_sql_append db (filter (\<lambda>r. \<not> pair_occurs (parts db) r) (frame_rows df)),
                  length (filter (\<lambda>r. \<not> pair_occurs (parts db) r) (frame_rows df))))
          \<and> map part_cols.truncate
              (parts (to_sql_append db
                 (filter (\<lambda>r. \<not> pair_occurs (parts db) r) (frame_rows df)))) =
              map part_cols.truncate (parts db)
                @ filter (\<lambda>r. \<not> pair_occurs (parts db) r) (frame_rows df))"
proof (intro conjI impI)
  assume "\<not> allow_update ss \<and> \<not> checkbox"
  then show "insert_parts checkbox ss db df = (ss, Inr (db, 0))"
    by (simp add: insert_parts_def)
next
  assume a: "(allow_update ss \<or> checkbox)
        \<and> partNo_dtype df = TextColumn \<and> description_dtype df = TextColumn
        \<and> (\<forall>p\<in>set (parts db). CHR ''|'' \<notin> set (partNo p))
        \<and> (\<forall>r\<in>set (frame_rows df). CHR ''|'' \<notin> set (partNo r) \<and> description r \<noteq> None)"
  let ?keys = "map (\<lambda>(pn, d). dedup_key pn d) (map (\<lambda>p. (partNo p, description p)) (parts db))"
  have f: "filter (\<lambda>r. \<not> isin (dedup_key (partNo r) (description r)) ?keys) (frame_rows df) =
           filter (\<lambda>r. \<not> pair_occurs (parts db) r) (frame_rows df)"
  proof (rule filter_cong)
    fix r
    assume "r \<in> set (frame_rows df)"
    with a have "CHR ''|'' \<notin> set (partNo r)" and "\<exists>d. description r = Some d"
      by auto
    then obtain d where "CHR ''|'' \<notin> set (partNo r)" and "description r = Some d"
      by blast
    moreover from a have "\<forall>p\<in>set (parts db). CHR ''|'' \<notin> set (partNo p)"
      by blast
    ultimately show "(\<not> isin (dedup_key (partNo r) (description r)) ?keys) =
        (\<not> pair_occurs (parts db) r)"
      using key_occurs_iff [of "parts db" r d] by simp
  qed simp
  have e: "parts db = [] \<Longrightarrow> filter (\<lambda>r. \<not> pair_occurs (parts db) r) (frame_rows df) = frame_rows df"
    by (simp add: pair_occurs_def)
  show "insert_parts checkbox ss db df =
            (ss\<lparr>allow_update := True\<rparr>,
             Inr (to_sql_append db (filter (\<lambda>r. \<not> pair_occurs (parts db) r) (frame_rows df)),
                  length (filter (\<lambda>r. \<not> pair_occurs (parts db) r) (frame_rows df))))"
  proof (cases "parts db = []")
    case True
    with a e show ?thesis
      by (auto simp add: insert_parts_def Let_def to_sql_append_Nil)
  next
    case False
    with a f show ?thesis
      by (auto simp add: insert_parts_def Let_def to_sql_append_Nil)
  qed
next
  show "map part_cols.truncate
              (parts (to_sql_append db
                 (filter (\<lambda>r. \<not> pair_occurs (parts db) r) (frame_rows df)))) =
              map part_cols.truncate (parts db)
                @ filter (\<lambda>r. \<not> pair_occurs (parts db) r) (frame_rows df)"
    by (rule to_sql_append_parts)
qed

text \<open>
  With the gate closed nothing goes into the catalogue holding (A1, Widget).  With the
  box ticked, of the rows (a1, WIDGET) and (B2, Gadget) the first is skipped, the second
  is stored after the old part, and the count is 1.
\<close>

theorem insert_parts_dedup_witness:
  "insert_parts False \<lparr>allow_update = False\<rparr> catalog_widget
     (text_frame [free_text_row ''a1'' ''WIDGET'', free_text_row ''B2'' ''Gadget''])
   = (\<lparr>allow_update = False\<rparr>, Inr (catalog_widget, 0))
   \<and> insert_parts True \<lparr>allow_update = False\<rparr> catalog_widget
       (text_frame [free_text_row ''a1'' ''WIDGET'', free_text_row ''B2'' ''Gadget''])
     = (\<lparr>allow_update = True\<rparr>,
        Inr (to_sql_append catalog_widget [free_text_row ''B2'' ''Gadget''], 1))
   \<and> map part_cols.truncate (parts (to_sql_append catalog_widget [free_text_row ''B2'' ''Gadget'']))
       = [free_text_row ''A1'' ''Widget'', free_text_row ''B2'' ''Gadget'']"
proof -
  let ?df = "text_frame [free_text_row ''a1'' ''WIDGET'', free_text_row ''B2'' ''Gadget'']"
  have c: "\<not> allow_update \<lparr>allow_update = False\<rparr> \<and> \<not> False"
    by simp
  have g: "(allow_update \<lparr>allow_update = False\<rparr> \<or> True)
        \<and> partNo_dtype ?df = TextColumn \<and> description_dtype ?df = TextColumn
        \<and> (\<forall>p\<in>set (parts catalog_widget). CHR ''|'' \<notin> set (partNo p))
        \<and> (\<forall>r\<in>set (frame_rows ?df). CHR ''|'' \<notin> set (partNo r) \<and> description r \<noteq> None)"
    by code_simp
  have k: "filter (\<lambda>r. \<not> pair_occurs (parts catalog_widget) r) (frame_rows ?df)
      = [free_text_row ''B2'' ''Gadget'']"
    by code_simp
  have t: "map part_cols.truncate (parts catalog_widget) = [free_text_row ''A1'' ''Widget'']"
    by code_simp
  have u: "\<lparr>allow_update = False\<rparr>\<lparr>allow_update := True\<rparr> = \<lparr>allow_update = True\<rparr>"
    by simp
  have l: "length [free_text_row ''B2'' ''Gadget''] = 1"
    by simp
  have a: "[free_text_row ''A1'' ''Widget''] @ [free_text_row ''B2'' ''Gadget'']
      = [free_text_row ''A1'' ''Widget'', free_text_row ''B2'' ''Gadget'']"
    by simp
  from insert_parts_dedup [of "\<lparr>allow_update = False\<rparr>" False catalog_widget ?df] c
  have closed: "insert_parts False \<lparr>allow_update = False\<rparr> catalog_widget ?df
      = (\<lparr>allow_update = False\<rparr>, Inr (catalog_widget, 0))"
    by (rule conjunct1 [THEN mp])
  from insert_parts_dedup [of "\<lparr>allow_update = False\<rparr>" True catalog_widget ?df] g
  have opened: "insert_parts True \<lparr>allow_update = False\<rparr> catalog_widget ?df =
            (\<lparr>allow_update = False\<rparr>\<lparr>allow_update := True\<rparr>,
             Inr (to_sql_append catalog_widget
                    (filter (\<lambda>r. \<not> pair_occurs (parts catalog_widget) r) (frame_rows ?df)),
                  length (filter (\<lambda>r. \<not> pair_occurs (parts catalog_widget) r) (frame_rows ?df))))
          \<and> map part_cols.truncate
              (parts (to_sql_append catalog_widget
                 (filter (\<lambda>r. \<not> pair_occurs (parts catalog_widget) r) (frame_rows ?df)))) =
              map part_cols.truncate (parts catalog_widget)
                @ filter (\<lambda>r. \<not> pair_occurs (parts catalog_widget) r) (frame_rows ?df)"
    by (rule conjunct2 [THEN mp])
  from closed opened show ?thesis
    by (simp only: k t u l a)
qed

end
